theory Spec2Isabelle
  imports Complex_Main "HOL-Library.Word" "HOL-Library.AList_Mapping" "HOL-Library.Multiset"
begin

section \<open>Values, identifiers and documents\<close>

text \<open>
  The backend stores Python dictionaries in three MongoDB collections. The store's native
  identifier (bson \<open>ObjectId\<close>) is a 12-byte value, modelled as a 96-bit word. Python's
  \<open>float\<close> is modelled by \<open>real\<close>: the handlers only store and return a position,
  they never compute with it.
\<close>

type_synonym objectid = "96 word"

datatype pyval =
    PNone
  | PStr string
  | PInt int
  | PFloat real
  | PList "pyval list"
  | POid objectid

text \<open>
  A document is a dictionary. Its \<open>_id\<close> entry, when present, always holds an
  \<open>ObjectId\<close> (the store generates it; no handler ever writes \<open>_id\<close> itself), so this
  entry is kept in a field of its own and every other entry lives in \<open>entries\<close>.
\<close>

record document =
  id_field :: "objectid option"
  entries :: "(string, pyval) mapping"

definition empty_doc :: document where
  "empty_doc = \<lparr>id_field = None, entries = Mapping.empty\<rparr>"

text \<open>Truthiness of a dictionary (\<open>not doc\<close> is true exactly for the empty one).\<close>

definition is_empty_doc :: "document \<Rightarrow> bool" where
  "is_empty_doc d \<longleftrightarrow> id_field d = None \<and> Mapping.is_empty (entries d)"

text \<open>\<open>doc[k]\<close> as the store reads it, the key \<open>_id\<close> included.\<close>

definition field :: "document \<Rightarrow> string \<Rightarrow> pyval option" where
  "field d k = (if k = ''_id'' then map_option POid (id_field d)
                else Mapping.lookup (entries d) k)"

subsection \<open>ObjectId: text form\<close>

text \<open>
  \<open>str(ObjectId)\<close> is the 24-digit lower-case hexadecimal rendering of the 12 bytes;
  \<open>ObjectId(s)\<close> accepts a string of exactly 24 hexadecimal digits (either case) and
  raises \<open>InvalidId\<close> otherwise.
\<close>

definition hexchar :: "nat \<Rightarrow> char" where
  "hexchar d = ''0123456789abcdef'' ! (d mod 16)"

definition hexval :: "char \<Rightarrow> nat option" where
  "hexval c = (let n = (of_char c :: nat) in
     if 48 \<le> n \<and> n \<le> 57 then Some (n - 48)
     else if 97 \<le> n \<and> n \<le> 102 then Some (n - 87)
     else if 65 \<le> n \<and> n \<le> 70 then Some (n - 55)
     else None)"

fun to_hex :: "nat \<Rightarrow> nat \<Rightarrow> string" where
  "to_hex 0 n = []"
| "to_hex (Suc k) n = to_hex k (n div 16) @ [hexchar (n mod 16)]"

fun of_hex :: "nat \<Rightarrow> string \<Rightarrow> nat option" where
  "of_hex acc [] = Some acc"
| "of_hex acc (c # cs) =
     (case hexval c of None \<Rightarrow> None | Some d \<Rightarrow> of_hex (16 * acc + d) cs)"

definition str_of_oid :: "objectid \<Rightarrow> string" where
  "str_of_oid w = to_hex 24 (unat w)"

definition ObjectId :: "string \<Rightarrow> objectid option" where
  "ObjectId s = (if length s = 24 then map_option of_nat (of_hex 0 s) else None)"

section \<open>Errors and HTTP status\<close>

text \<open>
  A handler either returns a body or raises. \<open>HTTPException\<close> carries its status code.
  A pydantic \<open>ValidationError\<close> raised inside a handler body (not while the framework
  parses the request) is an ordinary uncaught exception: the framework answers 500.
  The request model itself (\<open>NovelCreate\<close>, \<open>ChapterCreate\<close>, \<open>ProgressUpsert\<close>) is
  enforced by the framework before the handler runs; here the handlers take the
  already parsed, typed payload.
\<close>

datatype error =
    HTTPException nat string
  | ValidationError "string list"

fun status_code :: "error + 'a \<Rightarrow> nat" where
  "status_code (Inr _) = 200"
| "status_code (Inl (HTTPException c _)) = c"
| "status_code (Inl (ValidationError _)) = 500"

definition oid :: "string \<Rightarrow> error + objectid" where
  "oid id_str = (case ObjectId id_str of
       Some v \<Rightarrow> Inr v
     | None \<Rightarrow> Inl (HTTPException 400 ''Invalid ID format''))"

section \<open>Serialisation\<close>

text \<open>
  \<open>serialize\<close> as a function on values: \<open>None\<close> and the empty dictionary are returned as
  they are; otherwise \<open>_id\<close> is popped and written as text under \<open>id\<close>, and every
  remaining \<open>ObjectId\<close> value is replaced by its text.
\<close>

definition oid_to_str :: "string \<Rightarrow> pyval \<Rightarrow> pyval" where
  "oid_to_str k v = (case v of POid w \<Rightarrow> PStr (str_of_oid w) | _ \<Rightarrow> v)"

definition pop_id :: "document \<Rightarrow> document" where
  "pop_id out = (case id_field out of
       None \<Rightarrow> out
     | Some w \<Rightarrow> \<lparr>id_field = None,
                  entries = Mapping.update ''id'' (PStr (str_of_oid w)) (entries out)\<rparr>)"

definition convert_oids :: "document \<Rightarrow> document" where
  "convert_oids out = out\<lparr>entries := Mapping.map_values oid_to_str (entries out)\<rparr>"

definition serialize_doc :: "document \<Rightarrow> document" where
  "serialize_doc doc = (if is_empty_doc doc then doc else convert_oids (pop_id doc))"

definition serialize :: "document option \<Rightarrow> document option" where
  "serialize doc = map_option serialize_doc doc"

section \<open>The document store\<close>

text \<open>
  The store holds named collections of documents in insertion order, a source of fresh
  identifiers, and the log of the operations issued so far (to tell whether a handler
  reached the database). It is assumed reachable: connection failures are not modelled.
\<close>

record database =
  colls :: "string \<Rightarrow> document list"
  next_id :: nat
  calls :: "string list"

definition empty_db :: database where
  "empty_db = \<lparr>colls = (\<lambda>_. []), next_id = 0, calls = []\<rparr>"

definition log_call :: "string \<Rightarrow> string \<Rightarrow> database \<Rightarrow> database" where
  "log_call name opn db = db\<lparr>calls := calls db @ [name @ ''.'' @ opn]\<rparr>"

text \<open>
  A filter is a list of (key, value) equalities; the empty filter matches every document.
  (The store's matching of a scalar against an array-valued field is not modelled: no
  filtered field of this service is ever a list.)
\<close>

type_synonym query = "(string \<times> pyval) list"

definition matches :: "query \<Rightarrow> document \<Rightarrow> bool" where
  "matches q d = list_all (\<lambda>(k, v). field d k = Some v) q"

definition find_docs :: "string \<Rightarrow> query \<Rightarrow> database \<Rightarrow> document list \<times> database" where
  "find_docs name q db = (filter (matches q) (colls db name), log_call name ''find'' db)"

definition find_one :: "string \<Rightarrow> query \<Rightarrow> database \<Rightarrow> document option \<times> database" where
  "find_one name q db = (find (matches q) (colls db name), log_call name ''find_one'' db)"

definition count_documents :: "string \<Rightarrow> query \<Rightarrow> database \<Rightarrow> nat \<times> database" where
  "count_documents name q db =
     (length (filter (matches q) (colls db name)), log_call name ''count_documents'' db)"

definition insert_one ::
    "string \<Rightarrow> (string, pyval) mapping \<Rightarrow> database \<Rightarrow> objectid \<times> database" where
  "insert_one name flds db =
     (let w = (of_nat (next_id db) :: objectid);
          d = \<lparr>id_field = Some w, entries = flds\<rparr>
      in (w, log_call name ''insert_one''
               (db\<lparr>colls := (colls db)(name := colls db name @ [d]),
                   next_id := Suc (next_id db)\<rparr>)))"

definition set_fields :: "(string \<times> pyval) list \<Rightarrow> (string, pyval) mapping \<Rightarrow> (string, pyval) mapping" where
  "set_fields kvs m = fold (\<lambda>(k, v) m. Mapping.update k v m) kvs m"

fun update_first :: "('a \<Rightarrow> bool) \<Rightarrow> ('a \<Rightarrow> 'a) \<Rightarrow> 'a list \<Rightarrow> 'a list" where
  "update_first P f [] = []"
| "update_first P f (d # ds) = (if P d then f d # ds else d # update_first P f ds)"

text \<open>
  \<open>update_one(filter, {"$set": fields}, upsert=True)\<close>: the first matching document gets
  the fields set in place; when none matches, a new document is inserted that carries the
  filter's equalities and the fields.
\<close>

definition update_one_upsert ::
    "string \<Rightarrow> query \<Rightarrow> (string \<times> pyval) list \<Rightarrow> database \<Rightarrow> database" where
  "update_one_upsert name q kvs db =
     (if list_ex (matches q) (colls db name)
      then log_call name ''update_one''
             (db\<lparr>colls := (colls db)(name :=
                  update_first (matches q)
                    (\<lambda>d. d\<lparr>entries := set_fields kvs (entries d)\<rparr>) (colls db name))\<rparr>)
      else log_call name ''update_one''
             (db\<lparr>colls := (colls db)(name := colls db name @
                    [\<lparr>id_field = Some (of_nat (next_id db)),
                      entries = set_fields kvs (set_fields q Mapping.empty)\<rparr>]),
                 next_id := Suc (next_id db)\<rparr>))"

text \<open>
  \<open>.sort("index", 1)\<close>: ascending by the integer \<open>index\<close> entry. (How the store
  ranks missing or non-integer values against integers is not modelled; they get key 0 here.)
\<close>

definition index_key :: "document \<Rightarrow> int" where
  "index_key d = (case field d ''index'' of Some (PInt i) \<Rightarrow> i | _ \<Rightarrow> 0)"

definition sort_by_index :: "document list \<Rightarrow> document list" where
  "sort_by_index ds = sort_key index_key ds"

text \<open>
  Modelled from the spec: \<open>create_document\<close> lives in the repository's \<open>database\<close> module,
  which is not among the sources. The spec: "insert(collectionName, record): ... persists
  it, returns a newly generated unique identifier as text. Side effect: one durable write."
\<close>

definition create_document ::
    "string \<Rightarrow> (string \<times> pyval) list \<Rightarrow> database \<Rightarrow> string \<times> database" where
  "create_document collection_name data db =
     (let (w, db') = insert_one collection_name (set_fields data Mapping.empty) db
      in (str_of_oid w, db'))"

section \<open>Request models and entity schemas\<close>

text \<open>
  The request models of \<open>main.py\<close>, as the framework hands them to the handlers.
  Omitted optional fields are \<open>None\<close>.
\<close>

record NovelCreate =
  title :: string
  author :: string
  description :: string
  cover_url :: "string option"
  genres :: "string list option"

record ChapterCreate =
  index :: int
  chapter_title :: string
  content :: string

record ProgressUpsert =
  user_id :: string
  novel_id :: string
  chapter_id :: string
  position :: real

text \<open>\<open>model_dump()\<close>: every declared field, the unset ones with their value \<open>None\<close>.\<close>

definition opt_str :: "string option \<Rightarrow> pyval" where
  "opt_str x = (case x of None \<Rightarrow> PNone | Some s \<Rightarrow> PStr s)"

definition opt_str_list :: "string list option \<Rightarrow> pyval" where
  "opt_str_list x = (case x of None \<Rightarrow> PNone | Some xs \<Rightarrow> PList (map PStr xs))"

definition NovelCreate_model_dump :: "NovelCreate \<Rightarrow> (string \<times> pyval) list" where
  "NovelCreate_model_dump novel =
     [(''title'', PStr (title novel)),
      (''author'', PStr (author novel)),
      (''description'', PStr (description novel)),
      (''cover_url'', opt_str (cover_url novel)),
      (''genres'', opt_str_list (genres novel))]"

definition ChapterCreate_model_dump :: "ChapterCreate \<Rightarrow> (string \<times> pyval) list" where
  "ChapterCreate_model_dump chapter =
     [(''index'', PInt (index chapter)),
      (''title'', PStr (chapter_title chapter)),
      (''content'', PStr (content chapter))]"

text \<open>
  The entity schemas of \<open>schemas.py\<close>. A schema is called with keyword arguments; each
  field validator yields the validated value or fails. A required field (\<open>Field(...)\<close>)
  fails when its keyword is missing, a defaulted one takes its default then; a keyword
  that is given is validated against the field's type, so an explicit \<open>None\<close> is accepted
  by \<open>Optional[str]\<close> and refused by \<open>List[str]\<close>.
\<close>

definition is_str :: "pyval \<Rightarrow> bool" where
  "is_str v = (case v of PStr _ \<Rightarrow> True | _ \<Rightarrow> False)"

definition required_str :: "pyval option \<Rightarrow> pyval option" where
  "required_str x = (case x of Some (PStr s) \<Rightarrow> Some (PStr s) | _ \<Rightarrow> None)"

definition optional_str :: "pyval option \<Rightarrow> pyval option" where
  "optional_str x = (case x of
       None \<Rightarrow> Some PNone
     | Some PNone \<Rightarrow> Some PNone
     | Some (PStr s) \<Rightarrow> Some (PStr s)
     | _ \<Rightarrow> None)"

definition str_list_default_empty :: "pyval option \<Rightarrow> pyval option" where
  "str_list_default_empty x = (case x of
       None \<Rightarrow> Some (PList [])
     | Some (PList xs) \<Rightarrow> (if list_all is_str xs then Some (PList xs) else None)
     | _ \<Rightarrow> None)"

definition required_int_ge :: "int \<Rightarrow> pyval option \<Rightarrow> pyval option" where
  "required_int_ge lo x = (case x of
       Some (PInt i) \<Rightarrow> (if lo \<le> i then Some (PInt i) else None)
     | _ \<Rightarrow> None)"

definition float_in_range_default :: "real \<Rightarrow> real \<Rightarrow> real \<Rightarrow> pyval option \<Rightarrow> pyval option" where
  "float_in_range_default dflt lo hi x = (case x of
       None \<Rightarrow> Some (PFloat dflt)
     | Some (PFloat r) \<Rightarrow> (if lo \<le> r \<and> r \<le> hi then Some (PFloat r) else None)
     | Some (PInt i) \<Rightarrow> (if lo \<le> of_int i \<and> of_int i \<le> hi then Some (PFloat (of_int i)) else None)
     | _ \<Rightarrow> None)"

text \<open>
  Building the model: all validators run; when any fails, \<open>ValidationError\<close> is
  raised naming the violated fields, otherwise the model holds the validated values.
\<close>

definition build_model :: "(string \<times> pyval option) list \<Rightarrow> error + (string \<times> pyval) list" where
  "build_model rs =
     (let bad = map fst (filter (\<lambda>(k, r). r = None) rs)
      in if bad = [] then Inr (map (\<lambda>(k, r). (k, the r)) rs)
         else Inl (ValidationError bad))"

definition NovelSchema :: "(string \<times> pyval) list \<Rightarrow> error + (string \<times> pyval) list" where
  "NovelSchema kwargs =
     build_model
       [(''title'', required_str (map_of kwargs ''title'')),
        (''author'', required_str (map_of kwargs ''author'')),
        (''description'', required_str (map_of kwargs ''description'')),
        (''cover_url'', optional_str (map_of kwargs ''cover_url'')),
        (''genres'', str_list_default_empty (map_of kwargs ''genres''))]"

definition ChapterSchema :: "(string \<times> pyval) list \<Rightarrow> error + (string \<times> pyval) list" where
  "ChapterSchema kwargs =
     build_model
       [(''novel_id'', required_str (map_of kwargs ''novel_id'')),
        (''index'', required_int_ge 1 (map_of kwargs ''index'')),
        (''title'', required_str (map_of kwargs ''title'')),
        (''content'', required_str (map_of kwargs ''content''))]"

definition ProgressSchema :: "(string \<times> pyval) list \<Rightarrow> error + (string \<times> pyval) list" where
  "ProgressSchema kwargs =
     build_model
       [(''user_id'', required_str (map_of kwargs ''user_id'')),
        (''novel_id'', required_str (map_of kwargs ''novel_id'')),
        (''chapter_id'', required_str (map_of kwargs ''chapter_id'')),
        (''position'', float_in_range_default 0 0 1 (map_of kwargs ''position''))]"

section \<open>API handlers\<close>

text \<open>
  Every handler takes the store and returns its outcome with the store afterwards. An
  exception leaves the store as it was when it was raised.
\<close>

text \<open>Truthiness of \<open>doc\<close>: \<open>not doc\<close> holds for \<open>None\<close> and for the empty dictionary.\<close>

definition falsy :: "document option \<Rightarrow> bool" where
  "falsy doc = (case doc of None \<Rightarrow> True | Some d \<Rightarrow> is_empty_doc d)"

definition create_novel :: "NovelCreate \<Rightarrow> database \<Rightarrow> (error + string) \<times> database" where
  "create_novel novel db =
     (case NovelSchema (NovelCreate_model_dump novel) of
        Inl e \<Rightarrow> (Inl e, db)
      | Inr data \<Rightarrow>
          (let (new_id, db') = create_document ''novel'' data db
           in (Inr new_id, db')))"

definition get_novel :: "string \<Rightarrow> database \<Rightarrow> (error + document option) \<times> database" where
  "get_novel nid db =
     (case oid nid of
        Inl e \<Rightarrow> (Inl e, db)
      | Inr w \<Rightarrow>
          (let (doc, db') = find_one ''novel'' [(''_id'', POid w)] db
           in if falsy doc then (Inl (HTTPException 404 ''Novel not found''), db')
              else (Inr (serialize doc), db')))"

definition list_chapters :: "string \<Rightarrow> database \<Rightarrow> (error + document list) \<times> database" where
  "list_chapters nid db =
     (let (docs, db') = find_docs ''chapter'' [(''novel_id'', PStr nid)] db
      in (Inr (map serialize_doc (sort_by_index docs)), db'))"

definition create_chapter ::
    "string \<Rightarrow> ChapterCreate \<Rightarrow> database \<Rightarrow> (error + string) \<times> database" where
  "create_chapter nid chapter db =
     (case ChapterSchema ((''novel_id'', PStr nid) # ChapterCreate_model_dump chapter) of
        Inl e \<Rightarrow> (Inl e, db)
      | Inr data \<Rightarrow>
          (let (new_id, db') = create_document ''chapter'' data db
           in (Inr new_id, db')))"

definition get_chapter :: "string \<Rightarrow> database \<Rightarrow> (error + document option) \<times> database" where
  "get_chapter cid db =
     (case oid cid of
        Inl e \<Rightarrow> (Inl e, db)
      | Inr w \<Rightarrow>
          (let (doc, db') = find_one ''chapter'' [(''_id'', POid w)] db
           in if falsy doc then (Inl (HTTPException 404 ''Chapter not found''), db')
              else (Inr (serialize doc), db')))"

definition progress_key :: "string \<Rightarrow> string \<Rightarrow> query" where
  "progress_key u n = [(''user_id'', PStr u), (''novel_id'', PStr n)]"

definition get_progress ::
    "string \<Rightarrow> string \<Rightarrow> database \<Rightarrow> (error + document option) \<times> database" where
  "get_progress uid nid db =
     (let (doc, db') = find_one ''progress'' (progress_key uid nid) db
      in (Inr (if falsy doc then None else serialize doc), db'))"

definition upsert_progress ::
    "ProgressUpsert \<Rightarrow> database \<Rightarrow> (error + document option) \<times> database" where
  "upsert_progress p db =
     (let db1 = update_one_upsert ''progress'' (progress_key (user_id p) (novel_id p))
                  [(''user_id'', PStr (user_id p)),
                   (''novel_id'', PStr (novel_id p)),
                   (''chapter_id'', PStr (chapter_id p)),
                   (''position'', PFloat (position p))] db;
          (doc, db2) = find_one ''progress'' (progress_key (user_id p) (novel_id p)) db1
      in (Inr (serialize doc), db2))"

subsection \<open>Seeding demo data\<close>

text \<open>
  The demo texts. Python strings are sequences of code points; here a character outside
  ASCII is written as its UTF-8 bytes. Nothing proved below depends on the texts.
\<close>

definition ch1_content :: string where
  \<open>ch1_content =
     ''The city-orbit glowed like a halo around the dead moon. As '' @
     ''Kestrel aligned the ship with Dock 47, the hull hummed'' @
     [CHR 0xE2, CHR 0x80, CHR 0x94] @
     ''anxious, aware.'' @
     [CHR 0x0A] @
     [CHR 0x22] @
     ''You sure about this?'' @
     [CHR 0x22] @
     '' the ship asked, voice like rain on glass.'' @
     [CHR 0x0A] @
     [CHR 0x22] @
     ''No,'' @
     [CHR 0x22] @
     '' she said, and smiled.''\<close>

definition ch2_content :: string where
  \<open>ch2_content =
     ''The transmission carried a heartbeat buried in static. Every '' @
     ''station they passed began to blink in unison.'' @
     [CHR 0x0A] @
     ''The pattern spelled a name Kestrel swore she'' @
     [CHR 0x27] @
     ''d forgotten.''\<close>

definition ch3_content :: string where
  \<open>ch3_content =
     ''Morning arrived in layers, like rings inside a tree. Jae '' @
     ''clipped the excess day and folded it into the compost of '' @
     ''yesterday.''\<close>

definition n1_description :: string where
  \<open>n1_description =
     ''A rogue pilot and a sentient starship uncover a conspiracy '' @
     ''spanning galaxies.''\<close>

definition n1_cover_url :: string where
  \<open>n1_cover_url =
     ''https://images.unsplash.com/photo-1520975980471-4f0f2c56b05c?q=8'' @
     ''0&w=1200&auto=format&fit=crop''\<close>

definition n2_description :: string where
  \<open>n2_description =
     ''In a city where time blossoms like petals, a gardener tends to '' @
     ''timelines.''\<close>

definition n2_cover_url :: string where
  \<open>n2_cover_url =
     ''https://images.unsplash.com/photo-1526318472351-c75fcf070305?q=8'' @
     ''0&w=1200&auto=format&fit=crop''\<close>

definition n1_kwargs :: "(string \<times> pyval) list" where
  "n1_kwargs =
     [(''title'', PStr ''Neon Skies of Andromeda''),
      (''author'', PStr ''Ava Kestrel''),
      (''description'', PStr n1_description),
      (''cover_url'', PStr n1_cover_url),
      (''genres'', PList [PStr ''Sci-Fi'', PStr ''Space Opera'', PStr ''Adventure''])]"

definition n2_kwargs :: "(string \<times> pyval) list" where
  "n2_kwargs =
     [(''title'', PStr ''Quantum Garden''),
      (''author'', PStr ''Jun Park''),
      (''description'', PStr n2_description),
      (''cover_url'', PStr n2_cover_url),
      (''genres'', PList [PStr ''Speculative'', PStr ''Time'', PStr ''Mystery''])]"

definition chapter_kwargs :: "string \<Rightarrow> int \<Rightarrow> string \<Rightarrow> string \<Rightarrow> (string \<times> pyval) list" where
  "chapter_kwargs nid i t c =
     [(''novel_id'', PStr nid), (''index'', PInt i), (''title'', PStr t), (''content'', PStr c)]"

text \<open>
  Raising inside a sequence of steps: \<open>bind\<close> stops at the first exception and keeps the
  store of that moment.
\<close>

type_synonym 'a action = "database \<Rightarrow> (error + 'a) \<times> database"

definition bind :: "'a action \<Rightarrow> ('a \<Rightarrow> 'b action) \<Rightarrow> 'b action" where
  "bind m f db = (case m db of (Inl e, db') \<Rightarrow> (Inl e, db') | (Inr x, db') \<Rightarrow> f x db')"

definition construct :: "error + 'a \<Rightarrow> 'a action" where
  "construct r db = (r, db)"

definition created :: "(database \<Rightarrow> string \<times> database) \<Rightarrow> string action" where
  "created f db = (let (new_id, db') = f db in (Inr new_id, db'))"

definition seed_demo_data :: "(string \<times> document list) action" where
  "seed_demo_data db =
     (let (n, db1) = count_documents ''novel'' [] db in
      if n > 0 then
        (let (docs, db2) = find_docs ''novel'' [] db1
         in (Inr (''exists'', map serialize_doc (take 5 docs)), db2))
      else
       (bind (construct (NovelSchema n1_kwargs)) (\<lambda>n1.
        bind (construct (NovelSchema n2_kwargs)) (\<lambda>n2.
        bind (created (create_document ''novel'' n1)) (\<lambda>n1_id.
        bind (created (create_document ''novel'' n2)) (\<lambda>n2_id.
        bind (construct (ChapterSchema
                (chapter_kwargs n1_id 1 ''Docking Under Neon'' ch1_content))) (\<lambda>ch1.
        bind (construct (ChapterSchema
                (chapter_kwargs n1_id 2 ''Ghost Frequencies'' ch2_content))) (\<lambda>ch2.
        bind (construct (ChapterSchema
                (chapter_kwargs n2_id 1 ''Pruning the Dawn'' ch3_content))) (\<lambda>ch3.
        bind (created (create_document ''chapter'' ch1)) (\<lambda>_.
        bind (created (create_document ''chapter'' ch2)) (\<lambda>_.
        bind (created (create_document ''chapter'' ch3)) (\<lambda>_ db9.
          (let (docs, db10) = find_docs ''novel'' [] db9
           in (Inr (''seeded'', map serialize_doc docs), db10))))))))))))) db1)"

subsection \<open>Sequences of progress updates\<close>

text \<open>Running \<open>POST /api/progress\<close> for each payload in turn, collecting the responses.\<close>

fun run_upserts ::
    "ProgressUpsert list \<Rightarrow> database \<Rightarrow> (error + document option) list \<times> database" where
  "run_upserts [] db = ([], db)"
| "run_upserts (p # ps) db =
     (let (r, db1) = upsert_progress p db;
          (rs, db2) = run_upserts ps db1
      in (r # rs, db2))"

section \<open>Serialisation on the heap\<close>

text \<open>
  For the question whether \<open>serialize\<close> touches its argument, dictionaries are objects on
  a heap: a list of cells addressed by position, a reference being an address or \<open>None\<close>.
  \<open>{**doc}\<close> allocates a new cell holding a copy; \<open>pop\<close> and the item assignments
  write to that cell only.
\<close>

type_synonym heap = "document list"

definition serialize_heap :: "heap \<Rightarrow> nat option \<Rightarrow> nat option \<times> heap" where
  "serialize_heap h doc =
     (case doc of
        None \<Rightarrow> (doc, h)
      | Some a \<Rightarrow>
          if is_empty_doc (h ! a) then (doc, h)
          else
            (let out = length h;
                 h1 = h @ [h ! a];
                 h2 = h1[out := pop_id (h1 ! out)];
                 h3 = h2[out := convert_oids (h2 ! out)]
             in (Some out, h3)))"

section \<open>Stored documents, described\<close>

text \<open>The document the store holds after inserting the fields \<open>kvs\<close> under identifier \<open>k\<close>.\<close>

definition stored :: "nat \<Rightarrow> (string \<times> pyval) list \<Rightarrow> document" where
  "stored k kvs = \<lparr>id_field = Some (of_nat k), entries = set_fields kvs Mapping.empty\<rparr>"

subsection \<open>What an upsert leaves in the progress collection\<close>

definition progress_fields :: "ProgressUpsert \<Rightarrow> (string \<times> pyval) list" where
  "progress_fields p =
     [(''user_id'', PStr (user_id p)), (''novel_id'', PStr (novel_id p)),
      (''chapter_id'', PStr (chapter_id p)), (''position'', PFloat (position p))]"

definition set_progress :: "ProgressUpsert \<Rightarrow> document \<Rightarrow> document" where
  "set_progress p d = d\<lparr>entries := set_fields (progress_fields p) (entries d)\<rparr>"

definition new_progress :: "nat \<Rightarrow> ProgressUpsert \<Rightarrow> document" where
  "new_progress k p = \<lparr>id_field = Some (of_nat k),
     entries = set_fields (progress_fields p)
                 (set_fields (progress_key (user_id p) (novel_id p)) Mapping.empty)\<rparr>"

text \<open>
  The progress collection after \<open>update_one\<close> with the payload \<open>p\<close>, \<open>k\<close> being the next
  fresh identifier: the two branches of \<open>update_one_upsert\<close>, named.
\<close>

definition upserted :: "ProgressUpsert \<Rightarrow> nat \<Rightarrow> document list \<Rightarrow> document list" where
  "upserted p k ds =
     (if list_ex (matches (progress_key (user_id p) (novel_id p))) ds
      then update_first (matches (progress_key (user_id p) (novel_id p))) (set_progress p) ds
      else ds @ [new_progress k p])"

text \<open>The positions held by the progress records, in collection order.\<close>

definition positions :: "database \<Rightarrow> pyval option list" where
  "positions db = map (\<lambda>d. field d ''position'') (colls db ''progress'')"

text \<open>The fields of a validated novel whose payload supplied the genres \<open>g\<close>.\<close>

definition novel_fields :: "NovelCreate \<Rightarrow> string list \<Rightarrow> (string \<times> pyval) list" where
  "novel_fields novel g =
     [(''title'', PStr (title novel)), (''author'', PStr (author novel)),
      (''description'', PStr (description novel)),
      (''cover_url'', opt_str (cover_url novel)),
      (''genres'', PList (map PStr g))]"

section \<open>Example stores and payloads\<close>

definition novel_no_genres :: NovelCreate where
  "novel_no_genres =
     \<lparr>title = ''T'', author = ''A'', description = ''D'', cover_url = None, genres = None\<rparr>"

definition novel_empty_title :: NovelCreate where
  "novel_empty_title =
     \<lparr>title = [], author = ''A'', description = ''D'', cover_url = None, genres = Some []\<rparr>"

definition novel_full :: NovelCreate where
  "novel_full =
     \<lparr>title = ''T'', author = ''A'', description = ''D'', cover_url = Some ''http://c'',
      genres = Some [''g1'', ''g2'']\<rparr>"

definition chapter_at :: "int \<Rightarrow> ChapterCreate" where
  "chapter_at i = \<lparr>index = i, chapter_title = ''T'', content = ''C''\<rparr>"

definition progress_at :: "string \<Rightarrow> real \<Rightarrow> ProgressUpsert" where
  "progress_at c x = \<lparr>user_id = ''u'', novel_id = ''n'', chapter_id = c, position = x\<rparr>"

definition other_progress :: ProgressUpsert where
  "other_progress = \<lparr>user_id = ''v'', novel_id = ''n'', chapter_id = ''c0'', position = 1 / 2\<rparr>"

text \<open>Four chapters, created out of order: two of novel \<open>n\<close> share index 2.\<close>

definition chapters_db :: database where
  "chapters_db =
     snd (create_chapter ''n'' (chapter_at 2)
       (snd (create_chapter ''m'' (chapter_at 1)
         (snd (create_chapter ''n'' (chapter_at 1)
           (snd (create_chapter ''n'' (chapter_at 2) empty_db)))))))"

text \<open>A heap with an empty dictionary at address 0 and a stored document at address 1.\<close>

definition heap_example :: heap where
  "heap_example =
     [empty_doc,
      \<lparr>id_field = Some 10, entries = set_fields [(''ref'', POid 11), (''n'', PInt 1)] Mapping.empty\<rparr>]"

section \<open>Properties\<close>

subsection \<open>Facts about the building blocks\<close>

lemmas schema_defs =
  NovelSchema_def ChapterSchema_def ProgressSchema_def build_model_def
  required_str_def optional_str_def str_list_default_empty_def required_int_ge_def
  float_in_range_default_def is_str_def NovelCreate_model_dump_def
  ChapterCreate_model_dump_def opt_str_def opt_str_list_def

lemma matches_single: "matches [(k, v)] = (\<lambda>d. field d k = Some v)"
  by (simp add: fun_eq_iff matches_def)

lemma field_serialize_doc:
  assumes "k \<noteq> ''_id''" "k \<noteq> ''id''"
  shows "field (serialize_doc d) k = map_option (oid_to_str k) (field d k)"
proof (cases "is_empty_doc d")
  case True
  then have "Mapping.lookup (entries d) k = None"
    by (simp add: is_empty_doc_def Mapping.is_empty_def keys_dom_lookup domIff
        flip: not_None_eq)
  with True assms show ?thesis by (simp add: serialize_doc_def field_def)
next
  case False
  with assms show ?thesis
    by (simp add: serialize_doc_def field_def convert_oids_def pop_id_def lookup_map_values
        split: option.splits)
qed

lemma index_key_serialize_doc: "index_key (serialize_doc d) = index_key d"
  by (simp add: index_key_def field_serialize_doc oid_to_str_def
      split: option.splits pyval.splits)

subsection \<open>Listing chapters\<close>

lemma list_chapters_result:
  "list_chapters nid db =
     (Inr (map serialize_doc (sort_key index_key
        (filter (\<lambda>d. field d ''novel_id'' = Some (PStr nid)) (colls db ''chapter'')))),
      log_call ''chapter'' ''find'' db)"
  by (simp add: list_chapters_def find_docs_def sort_by_index_def matches_single)

text \<open>
  C6. When every stored chapter carries an integer \<open>index\<close> (as every Chapter record
  does), \<open>GET /api/novels/{novel_id}/chapters\<close> returns exactly the serialised chapters
  whose \<open>novel_id\<close> matches, as a multiset (so chapters sharing an index are all
  returned), in ascending order of \<open>index\<close>, whatever the insertion order was.
\<close>

theorem list_chapters_sorted:
  assumes "\<forall>d \<in> set (colls db ''chapter''). \<exists>i. field d ''index'' = Some (PInt i)"
  shows "\<exists>docs idxs. fst (list_chapters nid db) = Inr docs
      \<and> mset docs = image_mset serialize_doc
            (mset (filter (\<lambda>d. field d ''novel_id'' = Some (PStr nid)) (colls db ''chapter'')))
      \<and> map (\<lambda>d. field d ''index'') docs = map (\<lambda>i. Some (PInt i)) idxs
      \<and> sorted idxs"
proof -
  define ms where
    "ms = filter (\<lambda>d. field d ''novel_id'' = Some (PStr nid)) (colls db ''chapter'')"
  define docs where "docs = map serialize_doc (sort_key index_key ms)"
  have res: "fst (list_chapters nid db) = Inr docs"
    by (simp add: list_chapters_result docs_def ms_def)
  have idx: "field d ''index'' = Some (PInt (index_key d))" if "d \<in> set docs" for d
  proof -
    from that obtain d0 where d0: "d0 \<in> set (colls db ''chapter'')" "d = serialize_doc d0"
      by (auto simp: docs_def ms_def)
    with assms obtain i where "field d0 ''index'' = Some (PInt i)" by blast
    then show ?thesis
      by (simp add: d0 index_key_def field_serialize_doc oid_to_str_def)
  qed
  have "map (\<lambda>d. field d ''index'') docs = map ((\<lambda>i. Some (PInt i)) \<circ> index_key) docs"
    by (rule map_cong[OF refl]) (simp only: o_apply idx)
  then have m: "map (\<lambda>d. field d ''index'') docs = map (\<lambda>i. Some (PInt i)) (map index_key docs)"
    by (simp only: map_map)
  have s: "sorted (map index_key docs)"
    by (simp add: docs_def comp_def index_key_serialize_doc)
  have p: "mset docs = image_mset serialize_doc (mset ms)"
    by (simp add: docs_def)
  from res m s p show ?thesis
    unfolding ms_def by blast
qed

lemma create_chapter_ok:
  assumes "1 \<le> index chapter"
  shows "create_chapter nid chapter db =
     (Inr (str_of_oid (of_nat (next_id db))),
      log_call ''chapter'' ''insert_one''
        (db\<lparr>colls := (colls db)(''chapter'' := colls db ''chapter'' @
               [\<lparr>id_field = Some (of_nat (next_id db)),
                 entries = set_fields
                   [(''novel_id'', PStr nid), (''index'', PInt (index chapter)),
                    (''title'', PStr (chapter_title chapter)),
                    (''content'', PStr (content chapter))] Mapping.empty\<rparr>]),
            next_id := Suc (next_id db)\<rparr>))"
  using assms
  by (simp add: create_chapter_def schema_defs create_document_def insert_one_def Let_def)

theorem list_chapters_sorted_witness:
  "\<exists>docs idxs. fst (list_chapters ''n'' chapters_db) = Inr docs
      \<and> mset docs = image_mset serialize_doc
            (mset (filter (\<lambda>d. field d ''novel_id'' = Some (PStr ''n''))
               (colls chapters_db ''chapter'')))
      \<and> map (\<lambda>d. field d ''index'') docs = map (\<lambda>i. Some (PInt i)) idxs
      \<and> sorted idxs"
proof -
  have h: "\<forall>d \<in> set (colls chapters_db ''chapter''). \<exists>i. field d ''index'' = Some (PInt i)"
    by (simp add: chapters_db_def chapter_at_def create_chapter_ok log_call_def empty_db_def
        field_def set_fields_def)
  show ?thesis by (rule list_chapters_sorted[OF h])
qed

subsection \<open>Seeding\<close>

lemma NovelSchema_n1: "NovelSchema n1_kwargs = Inr n1_kwargs"
  by (simp add: n1_kwargs_def schema_defs)

lemma NovelSchema_n2: "NovelSchema n2_kwargs = Inr n2_kwargs"
  by (simp add: n2_kwargs_def schema_defs)

lemma ChapterSchema_kwargs:
  "1 \<le> i \<Longrightarrow> ChapterSchema (chapter_kwargs nid i t c) = Inr (chapter_kwargs nid i t c)"
  by (simp add: chapter_kwargs_def schema_defs)

lemma seed_exists:
  assumes "colls db ''novel'' \<noteq> []"
  shows "seed_demo_data db =
     (Inr (''exists'', map serialize_doc (take 5 (colls db ''novel''))),
      db\<lparr>calls := calls db @ [''novel.count_documents'', ''novel.find'']\<rparr>)"
  using assms
  by (simp add: seed_demo_data_def count_documents_def find_docs_def matches_def log_call_def)

lemma seed_empty:
  assumes "colls db ''novel'' = []"
  shows "seed_demo_data db =
       (Inr (''seeded'', map serialize_doc
                [stored (next_id db) n1_kwargs, stored (Suc (next_id db)) n2_kwargs]),
        db\<lparr>colls := (colls db)
              (''novel'' := [stored (next_id db) n1_kwargs, stored (Suc (next_id db)) n2_kwargs],
               ''chapter'' := colls db ''chapter'' @
                 [stored (Suc (Suc (next_id db)))
                    (chapter_kwargs (str_of_oid (of_nat (next_id db))) 1
                       ''Docking Under Neon'' ch1_content),
                  stored (Suc (Suc (Suc (next_id db))))
                    (chapter_kwargs (str_of_oid (of_nat (next_id db))) 2
                       ''Ghost Frequencies'' ch2_content),
                  stored (Suc (Suc (Suc (Suc (next_id db)))))
                    (chapter_kwargs (str_of_oid (of_nat (Suc (next_id db)))) 1
                       ''Pruning the Dawn'' ch3_content)]),
           next_id := Suc (Suc (Suc (Suc (Suc (next_id db))))),
           calls := calls db @
              [''novel.count_documents'', ''novel.insert_one'', ''novel.insert_one'',
               ''chapter.insert_one'', ''chapter.insert_one'', ''chapter.insert_one'',
               ''novel.find'']\<rparr>)"
  using assms
  by (simp add: seed_demo_data_def count_documents_def find_docs_def matches_def log_call_def
      bind_def construct_def created_def NovelSchema_n1 NovelSchema_n2 ChapterSchema_kwargs
      create_document_def insert_one_def Let_def fun_upd_twist stored_def)

text \<open>
  C7. On a store whose novel collection is empty, \<open>POST /api/seed\<close> answers
  "seeded" with exactly the 2 novels it inserted and adds 3 chapters, leaving every other
  collection alone; seeding again answers "exists" with the same 2 (at most 5) novels and
  changes the size of no collection.
\<close>

theorem seed_twice:
  assumes "colls db ''novel'' = []"
  shows "\<exists>novels db1 novels2 db2.
      seed_demo_data db = (Inr (''seeded'', novels), db1)
    \<and> length novels = 2
    \<and> novels = map serialize_doc (colls db1 ''novel'')
    \<and> length (colls db1 ''novel'') = length (colls db ''novel'') + 2
    \<and> length (colls db1 ''chapter'') = length (colls db ''chapter'') + 3
    \<and> (\<forall>c. c \<noteq> ''novel'' \<and> c \<noteq> ''chapter'' \<longrightarrow> colls db1 c = colls db c)
    \<and> seed_demo_data db1 = (Inr (''exists'', novels2), db2)
    \<and> length novels2 \<le> 5
    \<and> novels2 = novels
    \<and> (\<forall>c. length (colls db2 c) = length (colls db1 c))"
  using assms by (simp add: seed_empty seed_exists)


theorem seed_twice_witness:
  "\<exists>novels db1 novels2 db2.
      seed_demo_data empty_db = (Inr (''seeded'', novels), db1)
    \<and> length novels = 2
    \<and> novels = map serialize_doc (colls db1 ''novel'')
    \<and> length (colls db1 ''novel'') = length (colls empty_db ''novel'') + 2
    \<and> length (colls db1 ''chapter'') = length (colls empty_db ''chapter'') + 3
    \<and> (\<forall>c. c \<noteq> ''novel'' \<and> c \<noteq> ''chapter'' \<longrightarrow> colls db1 c = colls empty_db c)
    \<and> seed_demo_data db1 = (Inr (''exists'', novels2), db2)
    \<and> length novels2 \<le> 5
    \<and> novels2 = novels
    \<and> (\<forall>c. length (colls db2 c) = length (colls db1 c))"
proof -
  have h: "colls empty_db ''novel'' = []" by (simp add: empty_db_def)
  show ?thesis by (rule seed_twice[OF h])
qed

subsection \<open>Progress upserts\<close>

lemma matches_progress_key:
  "matches (progress_key u n) d \<longleftrightarrow>
     field d ''user_id'' = Some (PStr u) \<and> field d ''novel_id'' = Some (PStr n)"
  by (simp add: matches_def progress_key_def)

lemma field_set_progress:
  "field (set_progress p d) ''user_id'' = Some (PStr (user_id p))"
  "field (set_progress p d) ''novel_id'' = Some (PStr (novel_id p))"
  "field (set_progress p d) ''chapter_id'' = Some (PStr (chapter_id p))"
  "field (set_progress p d) ''position'' = Some (PFloat (position p))"
  by (simp_all add: set_progress_def progress_fields_def set_fields_def field_def)

lemma matches_set_progress:
  "matches (progress_key u n) (set_progress p d) \<longleftrightarrow> user_id p = u \<and> novel_id p = n"
  by (simp add: matches_progress_key field_set_progress)

lemma field_new_progress:
  "field (new_progress k p) ''user_id'' = Some (PStr (user_id p))"
  "field (new_progress k p) ''novel_id'' = Some (PStr (novel_id p))"
  "field (new_progress k p) ''chapter_id'' = Some (PStr (chapter_id p))"
  "field (new_progress k p) ''position'' = Some (PFloat (position p))"
  by (simp_all add: new_progress_def progress_fields_def progress_key_def set_fields_def field_def)

lemma matches_new_progress:
  "matches (progress_key u n) (new_progress k p) \<longleftrightarrow> user_id p = u \<and> novel_id p = n"
  by (simp add: matches_progress_key field_new_progress)

lemma upsert_progress_colls:
  "colls (snd (upsert_progress p db)) =
     (colls db)(''progress'' := upserted p (next_id db) (colls db ''progress''))"
  by (simp add: upsert_progress_def update_one_upsert_def find_one_def log_call_def
      upserted_def set_progress_def[abs_def] new_progress_def progress_fields_def Let_def)

lemma upsert_progress_response:
  "fst (upsert_progress p db) =
     Inr (serialize (find (matches (progress_key (user_id p) (novel_id p)))
            (upserted p (next_id db) (colls db ''progress''))))"
  by (simp add: upsert_progress_def update_one_upsert_def find_one_def log_call_def
      upserted_def set_progress_def[abs_def] new_progress_def progress_fields_def Let_def)

lemma find_update_first:
  assumes "\<And>d. P d \<Longrightarrow> P (f d)"
  shows "find P (update_first P f ds) = map_option f (find P ds)"
  using assms by (induction ds) auto

lemma filter_update_first_same:
  assumes "\<And>d. P d \<Longrightarrow> P (f d)"
  shows "filter P (update_first P f ds) =
           (case filter P ds of [] \<Rightarrow> [] | d # r \<Rightarrow> f d # r)"
  using assms by (induction ds) (auto split: list.splits)

lemma filter_update_first_other:
  assumes "\<And>d. P d \<Longrightarrow> \<not> Q d \<and> \<not> Q (f d)"
  shows "filter Q (update_first P f ds) = filter Q ds"
  using assms by (induction ds) auto

lemma list_ex_filter_Nil: "list_ex P ds \<longleftrightarrow> filter P ds \<noteq> []"
  by (induction ds) auto

lemma find_None_filter: "find P ds = None \<longleftrightarrow> filter P ds = []"
  by (induction ds) auto

lemma find_snoc:
  "find P (ds @ [d]) = (case find P ds of Some x \<Rightarrow> Some x | None \<Rightarrow> if P d then Some d else None)"
  by (induction ds) auto

lemma find_filter_hd: "filter P ds = d # r \<Longrightarrow> find P ds = Some d"
  by (induction ds) (auto split: if_splits)

text \<open>After an upsert, the first record of the payload's pair carries the payload.\<close>

lemma upserted_find:
  "\<exists>d. find (matches (progress_key (user_id p) (novel_id p))) (upserted p k ds) = Some d
     \<and> field d ''user_id'' = Some (PStr (user_id p))
     \<and> field d ''novel_id'' = Some (PStr (novel_id p))
     \<and> field d ''chapter_id'' = Some (PStr (chapter_id p))
     \<and> field d ''position'' = Some (PFloat (position p))"
proof (cases "list_ex (matches (progress_key (user_id p) (novel_id p))) ds")
  case True
  then obtain d0 where "find (matches (progress_key (user_id p) (novel_id p))) ds = Some d0"
    by (cases "find (matches (progress_key (user_id p) (novel_id p))) ds")
       (auto simp: find_None_filter list_ex_filter_Nil)
  with True show ?thesis
    by (simp add: upserted_def find_update_first matches_set_progress field_set_progress)
next
  case False
  then have "find (matches (progress_key (user_id p) (novel_id p))) ds = None"
    by (simp add: find_None_filter list_ex_filter_Nil)
  with False show ?thesis
    by (simp add: upserted_def find_snoc matches_new_progress field_new_progress)
qed

text \<open>The records of the payload's pair: one stays one, none becomes one.\<close>

lemma upserted_filter_same:
  assumes "length (filter (matches (progress_key (user_id p) (novel_id p))) ds) \<le> 1"
  shows "\<exists>d. filter (matches (progress_key (user_id p) (novel_id p))) (upserted p k ds) = [d]"
proof (cases "filter (matches (progress_key (user_id p) (novel_id p))) ds")
  case Nil
  then show ?thesis
    by (simp add: upserted_def list_ex_filter_Nil matches_new_progress)
next
  case (Cons d r)
  with assms have "r = []" by simp
  with Cons show ?thesis
    by (simp add: upserted_def list_ex_filter_Nil filter_update_first_same matches_set_progress)
qed

lemma upserted_filter_other:
  assumes "(u, n) \<noteq> (user_id p, novel_id p)"
  shows "filter (matches (progress_key u n)) (upserted p k ds)
       = filter (matches (progress_key u n)) ds"
proof -
  have "\<not> matches (progress_key u n) d \<and> \<not> matches (progress_key u n) (set_progress p d)"
    if "matches (progress_key (user_id p) (novel_id p)) d" for d
    using that assms by (auto simp: matches_progress_key field_set_progress)
  then show ?thesis
    using assms by (auto simp: upserted_def filter_update_first_other matches_new_progress)
qed

lemma serialize_progress_fields:
  assumes "field d k = Some v" "k \<in> {''user_id'', ''novel_id'', ''chapter_id'', ''position''}"
      "\<forall>w. v \<noteq> POid w"
  shows "field (serialize_doc d) k = Some v"
  using assms by (auto simp: field_serialize_doc oid_to_str_def split: pyval.splits)

text \<open>
  C9. Every \<open>POST /api/progress\<close> succeeds; afterwards the record found for the
  payload's (user_id, novel_id) pair, and the document returned, carry the payload's
  user_id, novel_id, chapter_id and position: the whole record is overwritten.
\<close>

theorem upsert_progress_overwrites:
  "\<exists>d db'. snd (upsert_progress p db) = db'
     \<and> find (matches (progress_key (user_id p) (novel_id p))) (colls db' ''progress'') = Some d
     \<and> field d ''user_id'' = Some (PStr (user_id p))
     \<and> field d ''novel_id'' = Some (PStr (novel_id p))
     \<and> field d ''chapter_id'' = Some (PStr (chapter_id p))
     \<and> field d ''position'' = Some (PFloat (position p))
     \<and> fst (upsert_progress p db) = Inr (Some (serialize_doc d))
     \<and> field (serialize_doc d) ''user_id'' = Some (PStr (user_id p))
     \<and> field (serialize_doc d) ''novel_id'' = Some (PStr (novel_id p))
     \<and> field (serialize_doc d) ''chapter_id'' = Some (PStr (chapter_id p))
     \<and> field (serialize_doc d) ''position'' = Some (PFloat (position p))"
proof -
  obtain d where d:
    "find (matches (progress_key (user_id p) (novel_id p)))
        (upserted p (next_id db) (colls db ''progress'')) = Some d"
    "field d ''user_id'' = Some (PStr (user_id p))"
    "field d ''novel_id'' = Some (PStr (novel_id p))"
    "field d ''chapter_id'' = Some (PStr (chapter_id p))"
    "field d ''position'' = Some (PFloat (position p))"
    using upserted_find[of p "next_id db" "colls db ''progress''"] by blast
  then show ?thesis
    by (simp add: upsert_progress_colls upsert_progress_response serialize_def
        serialize_progress_fields)
qed

lemma run_upserts_append:
  "run_upserts (xs @ ys) db =
     (fst (run_upserts xs db) @ fst (run_upserts ys (snd (run_upserts xs db))),
      snd (run_upserts ys (snd (run_upserts xs db))))"
  by (induction xs arbitrary: db) (simp_all add: split_beta Let_def)

lemma length_run_upserts: "length (fst (run_upserts ps db)) = length ps"
  by (induction ps arbitrary: db) (simp_all add: split_beta Let_def)

lemma upsert_progress_keeps_unique:
  assumes "length (filter (matches (progress_key u n)) (colls db ''progress'')) \<le> 1"
  shows "length (filter (matches (progress_key u n))
           (colls (snd (upsert_progress p db)) ''progress'')) \<le> 1"
proof (cases "(u, n) = (user_id p, novel_id p)")
  case True
  with assms upserted_filter_same[of p "colls db ''progress''" "next_id db"]
  show ?thesis by (auto simp: upsert_progress_colls)
next
  case False
  with assms show ?thesis
    by (simp add: upsert_progress_colls upserted_filter_other)
qed

lemma run_upserts_keeps_unique:
  assumes "length (filter (matches (progress_key u n)) (colls db ''progress'')) \<le> 1"
  shows "length (filter (matches (progress_key u n))
           (colls (snd (run_upserts ps db)) ''progress'')) \<le> 1"
  using assms
proof (induction ps arbitrary: db)
  case Nil
  then show ?case by simp
next
  case (Cons p ps)
  have "snd (run_upserts (p # ps) db) = snd (run_upserts ps (snd (upsert_progress p db)))"
    by (simp add: split_beta Let_def)
  with Cons.IH[OF upsert_progress_keeps_unique[OF Cons.prems]] show ?case
    by simp
qed

lemma upsert_progress_step:
  assumes "length (filter (matches (progress_key (user_id p) (novel_id p)))
             (colls db ''progress'')) \<le> 1"
  shows "\<exists>d. filter (matches (progress_key (user_id p) (novel_id p)))
               (colls (snd (upsert_progress p db)) ''progress'') = [d]
     \<and> field d ''chapter_id'' = Some (PStr (chapter_id p))
     \<and> field d ''position'' = Some (PFloat (position p))
     \<and> fst (upsert_progress p db) = Inr (Some (serialize_doc d))"
proof -
  let ?P = "matches (progress_key (user_id p) (novel_id p))"
  let ?ds = "upserted p (next_id db) (colls db ''progress'')"
  from upserted_filter_same[OF assms] obtain d where d: "filter ?P ?ds = [d]" by blast
  then have "find ?P ?ds = Some d" by (rule find_filter_hd)
  with upserted_find[of p "next_id db" "colls db ''progress''"] d show ?thesis
    by (auto simp: upsert_progress_colls upsert_progress_response serialize_def)
qed

text \<open>
  C3. Start from a store whose progress collection is empty and run any earlier
  upserts \<open>qs\<close> (for any pairs), then a sequence \<open>ps\<close> of upserts for the pair
  \<open>(u, n)\<close>. After each call of \<open>ps\<close>, hence after the last, exactly one record has the
  pair, its position is the position of that call, and the call's response is that
  record, serialised.
\<close>

theorem upsert_progress_sequence:
  assumes "colls db0 ''progress'' = []"
      and "\<forall>p \<in> set ps. user_id p = u \<and> novel_id p = n"
      and "k < length ps"
  shows "\<exists>d. filter (matches (progress_key u n))
               (colls (snd (run_upserts (qs @ take (Suc k) ps) db0)) ''progress'') = [d]
     \<and> field d ''position'' = Some (PFloat (position (ps ! k)))
     \<and> fst (run_upserts (qs @ ps) db0) ! (length qs + k) = Inr (Some (serialize_doc d))"
proof -
  define db1 where "db1 = snd (run_upserts (qs @ take k ps) db0)"
  have key: "user_id (ps ! k) = u" "novel_id (ps ! k) = n"
    using assms(2,3) by auto
  have "length (filter (matches (progress_key u n)) (colls db0 ''progress'')) \<le> 1"
    using assms(1) by simp
  then have "length (filter (matches (progress_key u n)) (colls db1 ''progress'')) \<le> 1"
    unfolding db1_def by (rule run_upserts_keeps_unique)
  with key have "length (filter (matches (progress_key (user_id (ps ! k)) (novel_id (ps ! k))))
             (colls db1 ''progress'')) \<le> 1" by simp
  from upsert_progress_step[OF this] key obtain d where d:
    "filter (matches (progress_key u n))
        (colls (snd (upsert_progress (ps ! k) db1)) ''progress'') = [d]"
    "field d ''position'' = Some (PFloat (position (ps ! k)))"
    "fst (upsert_progress (ps ! k) db1) = Inr (Some (serialize_doc d))"
    by auto
  have split1: "qs @ take (Suc k) ps = (qs @ take k ps) @ [ps ! k]"
    using assms(3) by (simp add: take_Suc_conv_app_nth)
  have split2: "qs @ ps = (qs @ take k ps) @ (ps ! k # drop (Suc k) ps)"
    using assms(3) by (simp add: Cons_nth_drop_Suc)
  define pre where "pre = qs @ take k ps"
  have s1: "snd (run_upserts (qs @ take (Suc k) ps) db0) = snd (upsert_progress (ps ! k) db1)"
    unfolding split1 db1_def pre_def[symmetric]
    by (simp add: run_upserts_append[of pre] split_beta Let_def)
  have len: "length (fst (run_upserts pre db0)) = length qs + k"
    using assms(3) by (simp add: length_run_upserts pre_def)
  have "fst (run_upserts (qs @ ps) db0) =
          fst (run_upserts pre db0) @
            (fst (upsert_progress (ps ! k) db1) #
             fst (run_upserts (drop (Suc k) ps) (snd (upsert_progress (ps ! k) db1))))"
    unfolding split2 db1_def pre_def[symmetric]
    by (simp add: run_upserts_append[of pre] split_beta Let_def)
  then have s2: "fst (run_upserts (qs @ ps) db0) ! (length qs + k)
               = fst (upsert_progress (ps ! k) db1)"
    using nth_append_length[of "fst (run_upserts pre db0)"] len by simp
  from d s1 s2 show ?thesis by auto
qed

theorem upsert_progress_overwrites_witness:
  "\<exists>d db'. snd (upsert_progress (progress_at ''c1'' (1 / 4)) empty_db) = db'
     \<and> find (matches (progress_key (user_id (progress_at ''c1'' (1 / 4)))
                (novel_id (progress_at ''c1'' (1 / 4))))) (colls db' ''progress'') = Some d
     \<and> field d ''user_id'' = Some (PStr (user_id (progress_at ''c1'' (1 / 4))))
     \<and> field d ''novel_id'' = Some (PStr (novel_id (progress_at ''c1'' (1 / 4))))
     \<and> field d ''chapter_id'' = Some (PStr (chapter_id (progress_at ''c1'' (1 / 4))))
     \<and> field d ''position'' = Some (PFloat (position (progress_at ''c1'' (1 / 4))))
     \<and> fst (upsert_progress (progress_at ''c1'' (1 / 4)) empty_db) = Inr (Some (serialize_doc d))
     \<and> field (serialize_doc d) ''user_id'' = Some (PStr (user_id (progress_at ''c1'' (1 / 4))))
     \<and> field (serialize_doc d) ''novel_id'' = Some (PStr (novel_id (progress_at ''c1'' (1 / 4))))
     \<and> field (serialize_doc d) ''chapter_id'' = Some (PStr (chapter_id (progress_at ''c1'' (1 / 4))))
     \<and> field (serialize_doc d) ''position'' = Some (PFloat (position (progress_at ''c1'' (1 / 4))))"
  by (rule upsert_progress_overwrites)

theorem upsert_progress_sequence_witness:
  "\<exists>d. filter (matches (progress_key ''u'' ''n''))
          (colls (snd (run_upserts
             ([other_progress] @ take (Suc 1) [progress_at ''c1'' 0, progress_at ''c2'' 1])
             empty_db)) ''progress'') = [d]
     \<and> field d ''position'' = Some (PFloat (position ([progress_at ''c1'' 0, progress_at ''c2'' 1] ! 1)))
     \<and> fst (run_upserts ([other_progress] @ [progress_at ''c1'' 0, progress_at ''c2'' 1]) empty_db)
           ! (length [other_progress] + 1) = Inr (Some (serialize_doc d))"
proof -
  have h1: "colls empty_db ''progress'' = []" by (simp add: empty_db_def)
  have h2: "\<forall>p \<in> set [progress_at ''c1'' 0, progress_at ''c2'' 1].
              user_id p = ''u'' \<and> novel_id p = ''n''"
    by (simp add: progress_at_def)
  have h3: "1 < length [progress_at ''c1'' 0, progress_at ''c2'' 1]" by simp
  show ?thesis by (rule upsert_progress_sequence[OF h1 h2 h3])
qed

subsection \<open>Validation inside the handlers\<close>

text \<open>
  C2. \<open>upsert_progress\<close> never builds a \<open>Progress\<close> schema object, and its request
  model declares \<open>position\<close> as a plain float. On the empty store, positions 1.01 and
  -0.01 are accepted (status 200) and written, although the \<open>Progress\<close> schema refuses both.
\<close>

theorem upsert_progress_accepts_out_of_range:
  "status_code (fst (upsert_progress (progress_at ''c'' (101 / 100)) empty_db)) = 200
   \<and> positions (snd (upsert_progress (progress_at ''c'' (101 / 100)) empty_db))
        = [Some (PFloat (101 / 100))]
   \<and> status_code (fst (upsert_progress (progress_at ''c'' (- 1 / 100)) empty_db)) = 200
   \<and> positions (snd (upsert_progress (progress_at ''c'' (- 1 / 100)) empty_db))
        = [Some (PFloat (- 1 / 100))]
   \<and> ProgressSchema (progress_fields (progress_at ''c'' (101 / 100)))
        = Inl (ValidationError [''position''])
   \<and> ProgressSchema (progress_fields (progress_at ''c'' (- 1 / 100)))
        = Inl (ValidationError [''position''])"
  by (simp add: upsert_progress_response upsert_progress_colls positions_def upserted_def
      empty_db_def progress_at_def new_progress_def progress_fields_def progress_key_def
      set_fields_def field_def schema_defs)

text \<open>
  C5. With \<open>index = 0\<close> the request model accepts the payload, the \<open>Chapter\<close> schema
  raises inside the handler, nothing is inserted and no database call is made; the
  exception is not an \<open>HTTPException\<close>, so the status is 500, not 422.
\<close>

theorem create_chapter_index0:
  "create_chapter ''n'' (chapter_at 0) empty_db = (Inl (ValidationError [''index'']), empty_db)
   \<and> status_code (fst (create_chapter ''n'' (chapter_at 0) empty_db)) = 500"
  by (simp add: create_chapter_def chapter_at_def schema_defs)

text \<open>
  C1. A payload that omits \<open>genres\<close> is dumped with \<open>genres = None\<close>; the \<open>Novel\<close>
  schema refuses the explicit \<open>None\<close> instead of filling in the empty list, so nothing is
  stored and the status is 500.
\<close>

theorem create_novel_genres_omitted:
  "create_novel novel_no_genres empty_db = (Inl (ValidationError [''genres'']), empty_db)
   \<and> status_code (fst (create_novel novel_no_genres empty_db)) = 500"
  by (simp add: create_novel_def novel_no_genres_def schema_defs)

subsection \<open>Identifiers as text\<close>

lemma hexval_hexchar: "d < 16 \<Longrightarrow> hexval (hexchar d) = Some d"
proof -
  assume "d < 16"
  then have "d \<in> {0,1,2,3,4,5,6,7,8,9,10,11,12,13,14,15}" by (simp; arith)
  then show ?thesis
    by (auto simp: hexval_def hexchar_def)
qed

lemma of_hex_append:
  "of_hex a (xs @ ys) = (case of_hex a xs of None \<Rightarrow> None | Some b \<Rightarrow> of_hex b ys)"
  by (induction xs arbitrary: a) (auto split: option.splits)

lemma length_to_hex: "length (to_hex k n) = k"
  by (induction k arbitrary: n) auto

lemma of_hex_to_hex: "of_hex a (to_hex k n) = Some (a * 16 ^ k + n mod 16 ^ k)"
proof (induction k arbitrary: n a)
  case 0
  then show ?case by simp
next
  case (Suc k)
  have "n mod (16 * 16 ^ k) = 16 * (n div 16 mod 16 ^ k) + n mod 16"
    by (simp add: mod_mult2_eq)
  then show ?case
    by (simp add: of_hex_append Suc hexval_hexchar algebra_simps)
qed

lemma ObjectId_str_of_oid: "ObjectId (str_of_oid w) = Some w"
proof -
  have "unat w < 2 ^ 96" using unsigned_less[of w] by simp
  then have "unat w mod 16 ^ 24 = unat w" by simp
  then show ?thesis
    by (simp add: ObjectId_def str_of_oid_def length_to_hex of_hex_to_hex)
qed

lemma oid_str_of_oid: "oid (str_of_oid w) = Inr w"
  by (simp add: oid_def ObjectId_str_of_oid)

subsection \<open>Creating and fetching a novel\<close>

lemma list_all_is_str: "list_all is_str (map PStr g)"
  by (induction g) (simp_all add: is_str_def)

lemma create_novel_ok:
  assumes "genres novel = Some g"
  shows "create_novel novel db =
     (Inr (str_of_oid (of_nat (next_id db))),
      log_call ''novel'' ''insert_one''
        (db\<lparr>colls := (colls db)(''novel'' := colls db ''novel'' @
               [stored (next_id db) (novel_fields novel g)]),
            next_id := Suc (next_id db)\<rparr>))"
  using assms list_all_is_str[of g]
  by (cases "cover_url novel")
     (simp_all add: create_novel_def NovelSchema_def build_model_def required_str_def
        optional_str_def str_list_default_empty_def NovelCreate_model_dump_def opt_str_def
        opt_str_list_def create_document_def insert_one_def Let_def stored_def novel_fields_def)

lemma matches_id: "matches [(''_id'', POid w)] d \<longleftrightarrow> id_field d = Some w"
  by (cases "id_field d") (simp_all add: matches_def field_def)

lemma find_absent: "\<forall>d \<in> set ds. \<not> P d \<Longrightarrow> find P (ds @ [x]) = (if P x then Some x else None)"
  by (induction ds) auto

lemma field_stored_novel:
  "field (serialize_doc (stored k (novel_fields novel g))) ''title'' = Some (PStr (title novel))"
  "field (serialize_doc (stored k (novel_fields novel g))) ''author'' = Some (PStr (author novel))"
  "field (serialize_doc (stored k (novel_fields novel g))) ''description''
     = Some (PStr (description novel))"
  "field (serialize_doc (stored k (novel_fields novel g))) ''cover_url''
     = Some (opt_str (cover_url novel))"
  "field (serialize_doc (stored k (novel_fields novel g))) ''genres'' = Some (PList (map PStr g))"
  by (simp_all add: field_serialize_doc oid_to_str_def, 
      simp_all add: stored_def novel_fields_def set_fields_def field_def opt_str_def
        split: option.splits)

lemma field_id_serialize_stored:
  "field (serialize_doc (stored k kvs)) ''id'' = Some (PStr (str_of_oid (of_nat k)))"
  by (simp add: serialize_doc_def is_empty_doc_def stored_def pop_id_def convert_oids_def
      field_def lookup_map_values oid_to_str_def)

text \<open>
  The round trip when \<open>genres\<close> is supplied and the fresh identifier is not in use: the
  document fetched under the returned id carries the payload's fields.
\<close>

lemma create_get_novel_roundtrip:
  assumes "genres novel = Some g"
      and "\<forall>d \<in> set (colls db ''novel''). id_field d \<noteq> Some (of_nat (next_id db))"
  shows "\<exists>new_id db1 doc db2.
      create_novel novel db = (Inr new_id, db1)
    \<and> get_novel new_id db1 = (Inr (Some doc), db2)
    \<and> field doc ''id'' = Some (PStr new_id)
    \<and> field doc ''title'' = Some (PStr (title novel))
    \<and> field doc ''author'' = Some (PStr (author novel))
    \<and> field doc ''description'' = Some (PStr (description novel))
    \<and> field doc ''cover_url'' = Some (opt_str (cover_url novel))
    \<and> field doc ''genres'' = Some (PList (map PStr g))"
proof -
  let ?w = "of_nat (next_id db) :: objectid"
  let ?d = "stored (next_id db) (novel_fields novel g)"
  have m: "matches [(''_id'', POid ?w)] ?d" by (simp add: matches_id stored_def)
  have "find (matches [(''_id'', POid ?w)]) (colls db ''novel'' @ [?d]) = Some ?d"
    using assms(2) m by (subst find_absent) (simp_all add: matches_id)
  moreover have "\<not> is_empty_doc ?d" by (simp add: is_empty_doc_def stored_def)
  ultimately have "get_novel (str_of_oid ?w) (snd (create_novel novel db))
       = (Inr (Some (serialize_doc ?d)), log_call ''novel'' ''find_one'' (snd (create_novel novel db)))"
    by (simp add: get_novel_def oid_str_of_oid find_one_def create_novel_ok[OF assms(1)]
        log_call_def falsy_def serialize_def)
  then show ?thesis
    by (simp add: create_novel_ok[OF assms(1)] field_stored_novel field_id_serialize_stored)
qed

text \<open>
  C8, as stated, fails: an empty title is accepted with status 200 and stored.
\<close>

theorem create_novel_empty_title_counterexample:
  "title novel_empty_title = []
   \<and> status_code (fst (create_novel novel_empty_title empty_db)) = 200
   \<and> length (colls (snd (create_novel novel_empty_title empty_db)) ''novel'') = 1"
proof -
  have g: "genres novel_empty_title = Some []" by (simp add: novel_empty_title_def)
  have t: "title novel_empty_title = []" by (simp add: novel_empty_title_def)
  show ?thesis
    by (simp add: create_novel_ok[OF g] t log_call_def empty_db_def)
qed

text \<open>
  C8, amended. The \<open>Novel\<close> schema constrains \<open>title\<close> to be text, not to be non-empty:
  a payload whose title is the empty string, with \<open>genres\<close> supplied, is accepted; one
  novel document with the empty title is appended and its identifier returned.
\<close>

theorem create_novel_empty_title:
  assumes "title novel = []" and "genres novel = Some g"
  shows "\<exists>new_id d.
      fst (create_novel novel db) = Inr new_id
    \<and> status_code (fst (create_novel novel db)) = 200
    \<and> colls (snd (create_novel novel db)) ''novel'' = colls db ''novel'' @ [d]
    \<and> field d ''title'' = Some (PStr [])
    \<and> field d ''_id'' = map_option POid (ObjectId new_id)"
  using assms
  by (simp add: create_novel_ok[OF assms(2)] log_call_def stored_def novel_fields_def
      set_fields_def field_def ObjectId_str_of_oid)

theorem create_novel_empty_title_witness:
  "\<exists>new_id d.
      fst (create_novel novel_empty_title empty_db) = Inr new_id
    \<and> status_code (fst (create_novel novel_empty_title empty_db)) = 200
    \<and> colls (snd (create_novel novel_empty_title empty_db)) ''novel''
         = colls empty_db ''novel'' @ [d]
    \<and> field d ''title'' = Some (PStr [])
    \<and> field d ''_id'' = map_option POid (ObjectId new_id)"
proof -
  have h1: "title novel_empty_title = []" by (simp add: novel_empty_title_def)
  have h2: "genres novel_empty_title = Some []" by (simp add: novel_empty_title_def)
  show ?thesis by (rule create_novel_empty_title[OF h1 h2])
qed

subsection \<open>Fetching by identifier\<close>

lemma matches_progress_nonempty:
  "matches (progress_key u n) d \<Longrightarrow> \<not> is_empty_doc d"
  by (auto simp: matches_progress_key is_empty_doc_def field_def Mapping.is_empty_def
      keys_dom_lookup)

lemma find_Some_matches: "find P ds = Some d \<Longrightarrow> P d"
  by (induction ds) (auto split: if_splits)

lemma get_progress_result:
  "get_progress uid nid db =
     (Inr (serialize (find (matches (progress_key uid nid)) (colls db ''progress''))),
      log_call ''progress'' ''find_one'' db)"
proof (cases "find (matches (progress_key uid nid)) (colls db ''progress'')")
  case None
  then show ?thesis by (simp add: get_progress_def find_one_def falsy_def serialize_def)
next
  case (Some d)
  then have "\<not> is_empty_doc d"
    by (intro matches_progress_nonempty[of uid nid]) (rule find_Some_matches)
  with Some show ?thesis by (simp add: get_progress_def find_one_def falsy_def)
qed

lemma get_novel_malformed:
  "ObjectId s = None \<Longrightarrow> get_novel s db = (Inl (HTTPException 400 ''Invalid ID format''), db)"
  by (simp add: get_novel_def oid_def)

lemma get_chapter_malformed:
  "ObjectId s = None \<Longrightarrow> get_chapter s db = (Inl (HTTPException 400 ''Invalid ID format''), db)"
  by (simp add: get_chapter_def oid_def)

lemma find_None_iff: "find P ds = None \<longleftrightarrow> (\<forall>d \<in> set ds. \<not> P d)"
  by (induction ds) auto

lemma get_novel_absent:
  assumes "ObjectId s = Some w" "\<forall>d \<in> set (colls db ''novel''). id_field d \<noteq> Some w"
  shows "get_novel s db =
     (Inl (HTTPException 404 ''Novel not found''), log_call ''novel'' ''find_one'' db)"
proof -
  have "find (matches [(''_id'', POid w)]) (colls db ''novel'') = None"
    using assms(2) by (simp add: find_None_iff matches_id)
  with assms(1) show ?thesis
    by (simp add: get_novel_def oid_def find_one_def falsy_def)
qed

lemma get_chapter_absent:
  assumes "ObjectId s = Some w" "\<forall>d \<in> set (colls db ''chapter''). id_field d \<noteq> Some w"
  shows "get_chapter s db =
     (Inl (HTTPException 404 ''Chapter not found''), log_call ''chapter'' ''find_one'' db)"
proof -
  have "find (matches [(''_id'', POid w)]) (colls db ''chapter'') = None"
    using assms(2) by (simp add: find_None_iff matches_id)
  with assms(1) show ?thesis
    by (simp add: get_chapter_def oid_def find_one_def falsy_def)
qed

text \<open>
  C4, as stated, fails for \<open>GET /api/progress/{user_id}/{novel_id}\<close>: malformed
  identifiers give status 200 with a null body, after a database call.
\<close>

theorem get_progress_malformed_counterexample:
  "ObjectId ''x'' = None \<and> ObjectId ''y'' = None
   \<and> status_code (fst (get_progress ''x'' ''y'' empty_db)) = 200
   \<and> fst (get_progress ''x'' ''y'' empty_db) = Inr None
   \<and> calls (snd (get_progress ''x'' ''y'' empty_db)) = [''progress.find_one'']"
  by (simp add: get_progress_result ObjectId_def empty_db_def log_call_def serialize_def)

text \<open>
  C4, amended. \<open>GET /api/novels/{id}\<close> and \<open>GET /api/chapters/{id}\<close> answer 400 for a
  malformed identifier, with the store (and its call log) untouched, and 404 for a
  well-formed identifier that no record has. \<open>GET /api/progress/{user_id}/{novel_id}\<close>
  takes both identifiers as opaque text: it always answers 200, with a null body exactly
  when no record has the pair.
\<close>

theorem get_by_id_errors:
  assumes "ObjectId bad = None"
      and "ObjectId good = Some w"
      and "\<forall>d \<in> set (colls db ''novel''). id_field d \<noteq> Some w"
      and "\<forall>d \<in> set (colls db ''chapter''). id_field d \<noteq> Some w"
  shows "get_novel bad db = (Inl (HTTPException 400 ''Invalid ID format''), db)
       \<and> get_chapter bad db = (Inl (HTTPException 400 ''Invalid ID format''), db)
       \<and> status_code (fst (get_novel good db)) = 404
       \<and> status_code (fst (get_chapter good db)) = 404
       \<and> status_code (fst (get_progress uid nid db)) = 200
       \<and> (fst (get_progress uid nid db) = Inr None
            \<longleftrightarrow> filter (matches (progress_key uid nid)) (colls db ''progress'') = [])"
  using assms
  by (simp add: get_novel_malformed get_chapter_malformed get_novel_absent get_chapter_absent
      get_progress_result serialize_def find_None_filter)

theorem get_by_id_errors_witness:
  "get_novel ''xyz'' empty_db = (Inl (HTTPException 400 ''Invalid ID format''), empty_db)
       \<and> get_chapter ''xyz'' empty_db = (Inl (HTTPException 400 ''Invalid ID format''), empty_db)
       \<and> status_code (fst (get_novel (str_of_oid 7) empty_db)) = 404
       \<and> status_code (fst (get_chapter (str_of_oid 7) empty_db)) = 404
       \<and> status_code (fst (get_progress ''xyz'' ''n'' empty_db)) = 200
       \<and> (fst (get_progress ''xyz'' ''n'' empty_db) = Inr None
            \<longleftrightarrow> filter (matches (progress_key ''xyz'' ''n'')) (colls empty_db ''progress'') = [])"
proof -
  have h1: "ObjectId ''xyz'' = None" by (simp add: ObjectId_def)
  have h2: "ObjectId (str_of_oid 7) = Some 7" by (rule ObjectId_str_of_oid)
  have h3: "\<forall>d \<in> set (colls empty_db ''novel''). id_field d \<noteq> Some 7"
    by (simp add: empty_db_def)
  have h4: "\<forall>d \<in> set (colls empty_db ''chapter''). id_field d \<noteq> Some 7"
    by (simp add: empty_db_def)
  show ?thesis by (rule get_by_id_errors[OF h1 h2 h3 h4])
qed

subsection \<open>Serialisation leaves its argument alone\<close>

lemma serialize_heap_result:
  "serialize_heap h (Some a) =
     (if is_empty_doc (h ! a) then (Some a, h)
      else (Some (length h), h @ [serialize_doc (h ! a)]))"
  by (simp add: serialize_heap_def Let_def serialize_doc_def)

text \<open>
  C10, as stated, fails for the empty dictionary: \<open>serialize\<close> returns the very
  object it was given, not a fresh one.
\<close>

theorem serialize_heap_empty_counterexample:
  "is_empty_doc ([empty_doc] ! 0) \<and> serialize_heap [empty_doc] (Some 0) = (Some 0, [empty_doc])"
  by (simp add: serialize_heap_result is_empty_doc_def empty_doc_def)

text \<open>
  C10, amended. For a non-empty document \<open>serialize\<close> returns a reference to a newly
  allocated dictionary holding the serialised copy; for an empty one, and for \<open>None\<close>,
  it returns its argument. In both cases every dictionary that existed before, the argument included,
  is unchanged.
\<close>

theorem serialize_heap_frame:
  assumes "a < length h"
  shows "serialize_heap h (Some a) =
           (if is_empty_doc (h ! a) then (Some a, h)
            else (Some (length h), h @ [serialize_doc (h ! a)]))
       \<and> (\<forall>b < length h. snd (serialize_heap h (Some a)) ! b = h ! b)
       \<and> snd (serialize_heap h (Some a)) ! a = h ! a
       \<and> serialize_heap h None = (None, h)"
proof -
  have "serialize_heap h None = (None, h)" by (simp add: serialize_heap_def)
  with assms show ?thesis by (simp add: serialize_heap_result nth_append)
qed

theorem serialize_heap_frame_witness:
  "serialize_heap heap_example (Some 1) =
     (Some 2, heap_example @ [serialize_doc (heap_example ! 1)])
   \<and> snd (serialize_heap heap_example (Some 1)) ! 0 = heap_example ! 0
   \<and> snd (serialize_heap heap_example (Some 1)) ! 1 = heap_example ! 1"
proof -
  have len: "length heap_example = 2" by (simp add: heap_example_def)
  have h: "1 < length heap_example" by (simp add: len)
  have ne: "\<not> is_empty_doc (heap_example ! 1)"
    by (simp add: heap_example_def is_empty_doc_def)
  note f = serialize_heap_frame[OF h]
  from f ne len have a: "serialize_heap heap_example (Some 1) =
     (Some 2, heap_example @ [serialize_doc (heap_example ! 1)])"
    by simp
  from f have "\<forall>b < length heap_example.
      snd (serialize_heap heap_example (Some 1)) ! b = heap_example ! b"
    by (rule conjunct1[OF conjunct2])
  then have "0 < length heap_example \<longrightarrow>
      snd (serialize_heap heap_example (Some 1)) ! 0 = heap_example ! 0"
    by (rule spec)
  with len have b: "snd (serialize_heap heap_example (Some 1)) ! 0 = heap_example ! 0"
    by simp
  from f have c: "snd (serialize_heap heap_example (Some 1)) ! 1 = heap_example ! 1"
    by (rule conjunct1[OF conjunct2[OF conjunct2]])
  from a b c show ?thesis by (intro conjI)
qed

lemma heap_example_fresh:
  "fst (serialize_heap heap_example (Some 1)) = Some 2
   \<and> id_field (snd (serialize_heap heap_example (Some 1)) ! 1) = Some 10
   \<and> field (snd (serialize_heap heap_example (Some 1)) ! 1) ''ref'' = Some (POid 11)
   \<and> field (snd (serialize_heap heap_example (Some 1)) ! 2) ''ref'' = Some (PStr (str_of_oid 11))
   \<and> field (snd (serialize_heap heap_example (Some 1)) ! 2) ''id'' = Some (PStr (str_of_oid 10))"
  by (simp add: serialize_heap_result heap_example_def is_empty_doc_def
      serialize_doc_def pop_id_def convert_oids_def field_def lookup_map_values oid_to_str_def
      set_fields_def)

subsection \<open>Worked examples\<close>

text \<open>
  Four chapters created in the order (n, 2), (n, 1), (m, 1), (n, 2): the listing for novel
  \<open>n\<close> is in ascending index order and holds both chapters of index 2.
\<close>

lemma chapters_db_chapter:
  "colls chapters_db ''chapter'' =
     [stored 0 (chapter_kwargs ''n'' 2 ''T'' ''C''), stored 1 (chapter_kwargs ''n'' 1 ''T'' ''C''),
      stored 2 (chapter_kwargs ''m'' 1 ''T'' ''C''), stored 3 (chapter_kwargs ''n'' 2 ''T'' ''C'')]"
  by (simp add: chapters_db_def chapter_at_def create_chapter_ok log_call_def empty_db_def
      stored_def chapter_kwargs_def)

lemma field_stored_chapter:
  "field (stored k (chapter_kwargs nid i t c)) ''novel_id'' = Some (PStr nid)"
  "field (stored k (chapter_kwargs nid i t c)) ''index'' = Some (PInt i)"
  by (simp_all add: stored_def chapter_kwargs_def set_fields_def field_def)

lemma index_key_stored_chapter: "index_key (stored k (chapter_kwargs nid i t c)) = i"
  by (simp add: index_key_def field_stored_chapter)

lemma list_chapters_example:
  "fst (list_chapters ''n'' chapters_db) =
     Inr (map serialize_doc
        [stored 1 (chapter_kwargs ''n'' 1 ''T'' ''C''), stored 0 (chapter_kwargs ''n'' 2 ''T'' ''C''),
         stored 3 (chapter_kwargs ''n'' 2 ''T'' ''C'')])"
  by (simp add: list_chapters_result chapters_db_chapter field_stored_chapter
      index_key_stored_chapter)

text \<open>Creating a novel with genres on the empty store and fetching it back.\<close>

lemma create_get_novel_example:
  "\<exists>new_id db1 doc db2.
      create_novel novel_full empty_db = (Inr new_id, db1)
    \<and> get_novel new_id db1 = (Inr (Some doc), db2)
    \<and> field doc ''id'' = Some (PStr new_id)
    \<and> field doc ''title'' = Some (PStr ''T'')
    \<and> field doc ''cover_url'' = Some (PStr ''http://c'')
    \<and> field doc ''genres'' = Some (PList [PStr ''g1'', PStr ''g2''])"
proof -
  have g: "genres novel_full = Some [''g1'', ''g2'']" by (simp add: novel_full_def)
  have f: "\<forall>d \<in> set (colls empty_db ''novel''). id_field d \<noteq> Some (of_nat (next_id empty_db))"
    by (simp add: empty_db_def)
  from create_get_novel_roundtrip[OF g f] show ?thesis
    by (auto simp: novel_full_def opt_str_def)
qed

end
